theory Spec2Isabelle
  imports Complex_Main
begin

section \<open>Python values, exceptions and effectful calls\<close>

text \<open>
  The toolbox is glue code: every function of \<^verbatim>\<open>utils/pdf_analysis.py\<close> and
  \<^verbatim>\<open>utils/pdf_processing.py\<close> is a short sequence of calls into third-party
  libraries (langchain, FAISS, camelot, pdfplumber, PyMuPDF). The libraries are not part of
  the repository, so they are parameters of the model: a record of operations, each a
  function from its arguments and the state of the outside world to an outcome and the new
  state of the world. What the repository's own code does (which calls it makes, in which
  order, with which arguments, and what it returns) is then a function of that record.

  An exception is a value: \<open>Inl e\<close> is \<^verbatim>\<open>raise e\<close>, \<open>Inr v\<close> is \<^verbatim>\<open>return v\<close>.
  \<open>exc\<close> stands for the exceptions derived from Python's \<^verbatim>\<open>Exception\<close>, the ones a
  failing library call raises and \<^verbatim>\<open>except Exception\<close> catches.
\<close>

datatype exc = KeyError string | Raised string

type_synonym ('a, 'w) io = "'w \<Rightarrow> (exc + 'a) \<times> 'w"

definition return_io :: "'a \<Rightarrow> ('a, 'w) io" where
  "return_io v w = (Inr v, w)"

definition raise_io :: "exc \<Rightarrow> ('a, 'w) io" where
  "raise_io e w = (Inl e, w)"

text \<open>Sequencing of two statements: the second runs only when the first did not raise.\<close>

definition bind_io :: "('a, 'w) io \<Rightarrow> ('a \<Rightarrow> ('b, 'w) io) \<Rightarrow> ('b, 'w) io" where
  "bind_io m f w = (case m w of (Inl e, w') \<Rightarrow> (Inl e, w') | (Inr v, w') \<Rightarrow> f v w')"

text \<open>A keyword argument with a default: \<open>None\<close> is the argument left out by the caller.\<close>

definition opt_arg :: "'a option \<Rightarrow> 'a \<Rightarrow> 'a" where
  "opt_arg given dflt = (case given of None \<Rightarrow> dflt | Some v \<Rightarrow> v)"

subsection \<open>Strings\<close>

text \<open>
  A Python \<^verbatim>\<open>str\<close> is modelled as a \<open>string\<close>, one \<open>char\<close> per code point, which covers
  the code points below 256. \<open>isspace\<close> is \<^verbatim>\<open>str.isspace\<close> on one character of that range
  (TAB, LF, VT, FF, CR, FS, GS, RS, US, space, NEL, NBSP), and \<open>strip\<close> is \<^verbatim>\<open>str.strip()\<close>
  without argument.
\<close>

definition isspace :: "char \<Rightarrow> bool" where
  "isspace c = (of_char c \<in> {9, 10, 11, 12, 13, 28, 29, 30, 31, 32, 133, 160 :: nat})"

definition strip :: "string \<Rightarrow> string" where
  "strip s = dropWhile isspace (rev (dropWhile isspace (rev s)))"

section \<open>\<^verbatim>\<open>utils/pdf_analysis.py\<close>\<close>

subsection \<open>The libraries it calls\<close>

text \<open>The keyword arguments \<^verbatim>\<open>together_llm\<close> hands to \<^verbatim>\<open>ChatOpenAI\<close>.\<close>

record chat_params =
  model :: string
  temperature :: real
  max_tokens :: int
  openai_api_key :: "string option"
  openai_api_base :: string

text \<open>The object \<^verbatim>\<open>llm.invoke\<close> returns; the code reads its \<^verbatim>\<open>content\<close>.\<close>

record ai_message =
  content :: string

text \<open>
  The values of the dictionary a \<^verbatim>\<open>RetrievalQA\<close> chain returns: the answer string and
  the list of source documents. The dictionary itself is an association list.
\<close>

datatype 'o pyval = PyStr string | PyList "'o list"

type_synonym 'o pydict = "(string \<times> 'o pyval) list"

text \<open>
  The library operations, in the order of their first use in the file. \<open>'o\<close> is the type
  of the library's objects (splitter, embedding model, vector store, retriever, chat model,
  chain, document), \<open>'w\<close> the state of the world they act on (loaded models, network).
  \<^item> \<open>RecursiveCharacterTextSplitter cs ov\<close>:
    \<^verbatim>\<open>RecursiveCharacterTextSplitter(chunk_size=cs, chunk_overlap=ov)\<close>;
  \<^item> \<open>split_text sp text\<close>: \<^verbatim>\<open>sp.split_text(text)\<close>;
  \<^item> \<open>HuggingFaceEmbeddings name\<close>: \<^verbatim>\<open>HuggingFaceEmbeddings(model_name=name)\<close>;
  \<^item> \<open>FAISS_from_texts chunks emb\<close>: \<^verbatim>\<open>FAISS.from_texts(chunks, emb)\<close>;
  \<^item> \<open>as_retriever vs k\<close>: \<^verbatim>\<open>vs.as_retriever(search_kwargs={"k": k})\<close>;
  \<^item> \<open>ChatOpenAI args\<close>: \<^verbatim>\<open>ChatOpenAI(model=..., ..., openai_api_base=...)\<close>;
  \<^item> \<open>RetrievalQA_from_chain_type llm ret rsd ct\<close>:
    \<^verbatim>\<open>RetrievalQA.from_chain_type(llm=llm, retriever=ret, return_source_documents=rsd, chain_type=ct)\<close>;
  \<^item> \<open>chain_call qa question\<close>: \<^verbatim>\<open>qa({"query": question})\<close>;
  \<^item> \<open>invoke llm prompt\<close>: \<^verbatim>\<open>llm.invoke(prompt)\<close>.
\<close>

record ('o, 'w) langchain =
  RecursiveCharacterTextSplitter :: "int \<Rightarrow> int \<Rightarrow> ('o, 'w) io"
  split_text :: "'o \<Rightarrow> string \<Rightarrow> (string list, 'w) io"
  HuggingFaceEmbeddings :: "string \<Rightarrow> ('o, 'w) io"
  FAISS_from_texts :: "string list \<Rightarrow> 'o \<Rightarrow> ('o, 'w) io"
  as_retriever :: "'o \<Rightarrow> int \<Rightarrow> ('o, 'w) io"
  ChatOpenAI :: "chat_params \<Rightarrow> ('o, 'w) io"
  RetrievalQA_from_chain_type :: "'o \<Rightarrow> 'o \<Rightarrow> bool \<Rightarrow> string \<Rightarrow> ('o, 'w) io"
  chain_call :: "'o \<Rightarrow> string \<Rightarrow> ('o pydict, 'w) io"
  invoke :: "'o \<Rightarrow> string \<Rightarrow> (ai_message, 'w) io"

subsection \<open>The functions of the file\<close>

text \<open>The string literals of the file that occur as arguments, under names.\<close>

definition embedding_model_name :: string where
  "embedding_model_name = ''sentence-transformers/all-MiniLM-L6-v2''"

definition default_model :: string where
  "default_model = ''meta-llama/Llama-Vision-Free''"

definition together_api_base :: string where
  "together_api_base = ''https://api.together.xyz/v1''"

definition api_key_variable :: string where
  "api_key_variable = ''TOGETHER_API_KEY''"

text \<open>
  \<^verbatim>\<open>
  def build_retriever_from_text(text, chunk_size=800, overlap=100, k=3):
      splitter = RecursiveCharacterTextSplitter(chunk_size=chunk_size, chunk_overlap=overlap)
      chunks = splitter.split_text(text)
      embeddings = HuggingFaceEmbeddings(model_name="sentence-transformers/all-MiniLM-L6-v2")
      vs = FAISS.from_texts(chunks, embeddings)
      return vs.as_retriever(search_kwargs={"k": k})
  \<close>
\<close>

definition build_retriever_from_text ::
  "('o, 'w) langchain \<Rightarrow> string \<Rightarrow> int option \<Rightarrow> int option \<Rightarrow> int option \<Rightarrow> ('o, 'w) io" where
  "build_retriever_from_text lib text chunk_size overlap k =
     bind_io (RecursiveCharacterTextSplitter lib (opt_arg chunk_size 800) (opt_arg overlap 100))
       (\<lambda>splitter.
     bind_io (split_text lib splitter text) (\<lambda>chunks.
     bind_io (HuggingFaceEmbeddings lib embedding_model_name)
       (\<lambda>embeddings.
     bind_io (FAISS_from_texts lib chunks embeddings) (\<lambda>vs.
     as_retriever lib vs (opt_arg k 3)))))"

text \<open>
  \<^verbatim>\<open>
  def together_llm(model="meta-llama/Llama-Vision-Free", temperature=0.2, max_tokens=512):
      return ChatOpenAI(model=model, temperature=temperature, max_tokens=max_tokens,
                        openai_api_key=os.getenv("TOGETHER_API_KEY"),
                        openai_api_base="https://api.together.xyz/v1")
  \<close>
  \<open>environ\<close> is the process environment \<^verbatim>\<open>os.getenv\<close> reads: an unset variable is
  \<open>None\<close>, as in Python. The literal \<^verbatim>\<open>0.2\<close> is taken as the decimal it denotes.
\<close>

definition together_llm ::
  "('o, 'w) langchain \<Rightarrow> (string \<rightharpoonup> string) \<Rightarrow> string option \<Rightarrow> real option \<Rightarrow> int option
     \<Rightarrow> ('o, 'w) io" where
  "together_llm lib environ model' temperature' max_tokens' =
     ChatOpenAI lib
       \<lparr>model = opt_arg model' default_model,
        temperature = opt_arg temperature' (2 / 10),
        max_tokens = opt_arg max_tokens' 512,
        openai_api_key = environ api_key_variable,
        openai_api_base = together_api_base\<rparr>"

text \<open>
  \<^verbatim>\<open>
  def rag_qa(text, question, model="meta-llama/Llama-Vision-Free"):
      retriever = build_retriever_from_text(text)
      llm = together_llm(model=model)
      qa = RetrievalQA.from_chain_type(llm=llm, retriever=retriever,
                                       return_source_documents=True, chain_type="stuff")
      result = qa({"query": question})
      return result["result"], result.get("source_documents", [])
  \<close>
  \<^verbatim>\<open>result["result"]\<close> raises \<^verbatim>\<open>KeyError\<close> on a missing key; \<^verbatim>\<open>result.get\<close> does not.
\<close>

definition rag_qa ::
  "('o, 'w) langchain \<Rightarrow> (string \<rightharpoonup> string) \<Rightarrow> string \<Rightarrow> string \<Rightarrow> string option
     \<Rightarrow> ('o pyval \<times> 'o pyval, 'w) io" where
  "rag_qa lib environ text question model' =
     bind_io (build_retriever_from_text lib text None None None) (\<lambda>retriever.
     bind_io (together_llm lib environ
                (Some (opt_arg model' default_model)) None None) (\<lambda>llm.
     bind_io (RetrievalQA_from_chain_type lib llm retriever True ''stuff'') (\<lambda>qa.
     bind_io (chain_call lib qa question) (\<lambda>result.
       case map_of result ''result'' of
         None \<Rightarrow> raise_io (KeyError ''result'')
       | Some answer \<Rightarrow>
           return_io (answer,
             case map_of result ''source_documents'' of
               None \<Rightarrow> PyList []
             | Some docs \<Rightarrow> docs)))))"

text \<open>
  \<^verbatim>\<open>
  def summarize_text(text, model="meta-llama/Llama-Vision-Free"):
      prompt = ("You are a concise technical summarizer. Summarize the following document "
                "in 6-10 bullet points, preserving key facts, numbers, and definitions. "
                "Text:\n\n" f"{text}")
      llm = together_llm(model=model, temperature=0.2, max_tokens=400)
      output = llm.invoke(prompt)
      return output.content.strip()
  \<close>
\<close>

definition summary_instruction :: string where
  "summary_instruction =
     ''You are a concise technical summarizer. Summarize the following document in 6-10 bullet points, ''
     @ ''preserving key facts, numbers, and definitions. Text:'' @ [CHR 0x0A, CHR 0x0A]"

definition summarize_text ::
  "('o, 'w) langchain \<Rightarrow> (string \<rightharpoonup> string) \<Rightarrow> string \<Rightarrow> string option \<Rightarrow> (string, 'w) io" where
  "summarize_text lib environ text model' =
     (let prompt = summary_instruction @ text in
      bind_io (together_llm lib environ
                 (Some (opt_arg model' default_model)) (Some (2 / 10)) (Some 400))
        (\<lambda>llm.
      bind_io (invoke lib llm prompt) (\<lambda>output.
      return_io (strip (content output)))))"

subsection \<open>Observing the calls\<close>

text \<open>
  What a run does to the outside world is the sequence of library calls it makes. An
  event is one call, with its arguments, and what came back: an exception or a value.
  \<open>traced lib\<close> is the library \<open>lib\<close> with a recorder in front of it: every operation
  behaves as in \<open>lib\<close> and appends its event to the log carried beside the world.
\<close>

datatype 'o call =
    Call_RecursiveCharacterTextSplitter int int
  | Call_split_text 'o string
  | Call_HuggingFaceEmbeddings string
  | Call_FAISS_from_texts "string list" 'o
  | Call_as_retriever 'o int
  | Call_ChatOpenAI chat_params
  | Call_RetrievalQA_from_chain_type 'o 'o bool string
  | Call_chain 'o string
  | Call_invoke 'o string

datatype 'o outcome =
    Raises exc
  | Returns_object 'o
  | Returns_chunks "string list"
  | Returns_dict "'o pydict"
  | Returns_message ai_message

type_synonym 'o event = "'o call \<times> 'o outcome"

definition record_call ::
  "'o call \<Rightarrow> ('a \<Rightarrow> 'o outcome) \<Rightarrow> ('a, 'w) io \<Rightarrow> ('a, 'w \<times> 'o event list) io" where
  "record_call c ret m = (\<lambda>(w, evs).
     case m w of
       (Inl e, w') \<Rightarrow> (Inl e, (w', evs @ [(c, Raises e)]))
     | (Inr v, w') \<Rightarrow> (Inr v, (w', evs @ [(c, ret v)])))"

definition traced :: "('o, 'w) langchain \<Rightarrow> ('o, 'w \<times> 'o event list) langchain" where
  "traced lib =
     \<lparr>RecursiveCharacterTextSplitter = (\<lambda>cs ov.
        record_call (Call_RecursiveCharacterTextSplitter cs ov) Returns_object
          (RecursiveCharacterTextSplitter lib cs ov)),
      split_text = (\<lambda>sp text.
        record_call (Call_split_text sp text) Returns_chunks (split_text lib sp text)),
      HuggingFaceEmbeddings = (\<lambda>name.
        record_call (Call_HuggingFaceEmbeddings name) Returns_object
          (HuggingFaceEmbeddings lib name)),
      FAISS_from_texts = (\<lambda>chunks emb.
        record_call (Call_FAISS_from_texts chunks emb) Returns_object
          (FAISS_from_texts lib chunks emb)),
      as_retriever = (\<lambda>vs k.
        record_call (Call_as_retriever vs k) Returns_object (as_retriever lib vs k)),
      ChatOpenAI = (\<lambda>args.
        record_call (Call_ChatOpenAI args) Returns_object (ChatOpenAI lib args)),
      RetrievalQA_from_chain_type = (\<lambda>llm ret rsd ct.
        record_call (Call_RetrievalQA_from_chain_type llm ret rsd ct) Returns_object
          (RetrievalQA_from_chain_type lib llm ret rsd ct)),
      chain_call = (\<lambda>qa question.
        record_call (Call_chain qa question) Returns_dict (chain_call lib qa question)),
      invoke = (\<lambda>llm prompt.
        record_call (Call_invoke llm prompt) Returns_message (invoke lib llm prompt))\<rparr>"

text \<open>Which operation an event is a call of, and whether the call raised.\<close>

datatype api =
    Api_RecursiveCharacterTextSplitter
  | Api_split_text
  | Api_HuggingFaceEmbeddings
  | Api_FAISS_from_texts
  | Api_as_retriever
  | Api_ChatOpenAI
  | Api_RetrievalQA_from_chain_type
  | Api_chain
  | Api_invoke

fun api_of :: "'o call \<Rightarrow> api" where
  "api_of (Call_RecursiveCharacterTextSplitter _ _) = Api_RecursiveCharacterTextSplitter"
| "api_of (Call_split_text _ _) = Api_split_text"
| "api_of (Call_HuggingFaceEmbeddings _) = Api_HuggingFaceEmbeddings"
| "api_of (Call_FAISS_from_texts _ _) = Api_FAISS_from_texts"
| "api_of (Call_as_retriever _ _) = Api_as_retriever"
| "api_of (Call_ChatOpenAI _) = Api_ChatOpenAI"
| "api_of (Call_RetrievalQA_from_chain_type _ _ _ _) = Api_RetrievalQA_from_chain_type"
| "api_of (Call_chain _ _) = Api_chain"
| "api_of (Call_invoke _ _) = Api_invoke"

fun raised :: "'o event \<Rightarrow> bool" where
  "raised (_, Raises _) = True"
| "raised (_, _) = False"

definition calls_of :: "api \<Rightarrow> 'o event list \<Rightarrow> 'o event list" where
  "calls_of a evs = filter (\<lambda>ev. api_of (fst ev) = a) evs"

text \<open>The keyword arguments of the chat-model constructions in a log, in order.\<close>

fun chat_params_of :: "'o event \<Rightarrow> chat_params option" where
  "chat_params_of (Call_ChatOpenAI args, _) = Some args"
| "chat_params_of (_, _) = None"

text \<open>The prompts sent through \<^verbatim>\<open>llm.invoke\<close> in a log, in order.\<close>

fun prompt_of :: "'o event \<Rightarrow> string option" where
  "prompt_of (Call_invoke _ prompt, _) = Some prompt"
| "prompt_of (_, _) = None"

text \<open>
  The chunk size and overlap the splitters of a log were constructed with, and the
  \<^verbatim>\<open>k\<close> its retrievers were made with, in order.
\<close>

fun splitter_sizes_of :: "'o event \<Rightarrow> (int \<times> int) option" where
  "splitter_sizes_of (Call_RecursiveCharacterTextSplitter cs ov, _) = Some (cs, ov)"
| "splitter_sizes_of (_, _) = None"

fun retriever_k_of :: "'o event \<Rightarrow> int option" where
  "retriever_k_of (Call_as_retriever _ k, _) = Some k"
| "retriever_k_of (_, _) = None"

subsection \<open>A small library to run the functions on\<close>

text \<open>
  One concrete instance of the library record, for the worked examples below. Its objects
  say how they were built; its world counts the embedding models loaded and keeps the
  texts sent to the remote model. The chat model refuses a missing key, the splitter
  returns the text as one chunk (and no chunk for the empty text), the index cannot be
  built from no chunks, the chain answers with a fixed string and the first \<open>k\<close>
  chunks. It stands for no particular version of the real libraries.
\<close>

datatype obj =
    Splitter int int
  | Embeddings string nat
  | Store "string list" obj
  | Retriever obj int
  | Llm chat_params
  | Chain obj obj
  | Document string

record world =
  loaded :: nat
  sent :: "string list"

fun chunks_of :: "obj \<Rightarrow> string list" where
  "chunks_of (Store chunks _) = chunks"
| "chunks_of (Retriever vs k) = take (nat k) (chunks_of vs)"
| "chunks_of (Chain _ ret) = chunks_of ret"
| "chunks_of _ = []"

definition small_library :: "(obj, world) langchain" where
  "small_library =
     \<lparr>RecursiveCharacterTextSplitter = (\<lambda>cs ov. return_io (Splitter cs ov)),
      split_text = (\<lambda>sp text. return_io (if text = [] then [] else [text])),
      HuggingFaceEmbeddings = (\<lambda>name w.
        (Inr (Embeddings name (loaded w)), w\<lparr>loaded := Suc (loaded w)\<rparr>)),
      FAISS_from_texts = (\<lambda>chunks emb.
        if chunks = [] then raise_io (Raised ''no texts to index'')
        else return_io (Store chunks emb)),
      as_retriever = (\<lambda>vs k. return_io (Retriever vs k)),
      ChatOpenAI = (\<lambda>args.
        case openai_api_key args of
          None \<Rightarrow> raise_io (Raised ''no api key'')
        | Some _ \<Rightarrow> return_io (Llm args)),
      RetrievalQA_from_chain_type = (\<lambda>llm ret rsd ct. return_io (Chain llm ret)),
      chain_call = (\<lambda>qa question w.
        (Inr [(''query'', PyStr question), (''result'', PyStr ''blue''),
              (''source_documents'', PyList (map Document (chunks_of qa)))],
         w\<lparr>sent := sent w @ [question]\<rparr>)),
      invoke = (\<lambda>llm prompt w.
        (Inr \<lparr>content = '' - one fact '' @ [CHR 0x0A]\<rparr>, w\<lparr>sent := sent w @ [prompt]\<rparr>))\<rparr>"

definition fresh_world :: world where
  "fresh_world = \<lparr>loaded = 0, sent = []\<rparr>"

definition environ_with_key :: "string \<rightharpoonup> string" where
  "environ_with_key = [api_key_variable \<mapsto> ''secret'']"

subsection \<open>What the two flows are expected to construct\<close>

text \<open>
  The keyword arguments of the chat model in the question-answering flow and in the
  summarization flow, under the names the statements below use, and the library operations
  of the question-answering flow in the order of the source.
\<close>

definition qa_params :: "(string \<rightharpoonup> string) \<Rightarrow> string option \<Rightarrow> chat_params" where
  "qa_params environ m = \<lparr>model = opt_arg m default_model, temperature = 2 / 10, max_tokens = 512,
      openai_api_key = environ api_key_variable, openai_api_base = together_api_base\<rparr>"

definition summary_params :: "(string \<rightharpoonup> string) \<Rightarrow> string option \<Rightarrow> chat_params" where
  "summary_params environ m = \<lparr>model = opt_arg m default_model, temperature = 2 / 10, max_tokens = 400,
      openai_api_key = environ api_key_variable, openai_api_base = together_api_base\<rparr>"

definition rag_qa_pipeline :: "api list" where
  "rag_qa_pipeline = [Api_RecursiveCharacterTextSplitter, Api_split_text, Api_HuggingFaceEmbeddings,
     Api_FAISS_from_texts, Api_as_retriever, Api_ChatOpenAI, Api_RetrievalQA_from_chain_type, Api_chain]"

section \<open>\<^verbatim>\<open>utils/pdf_processing.py\<close>\<close>

subsection \<open>Table extraction\<close>

text \<open>
  The two table detectors. A Camelot table carries a data frame \<^verbatim>\<open>t.df\<close>; a pdfplumber
  table is a list of rows of cells, a cell a string or \<^verbatim>\<open>None\<close>. The function returns a
  list of the one or of the other.
  \<^item> \<open>camelot_read_pdf path pages\<close>: \<^verbatim>\<open>camelot.read_pdf(path, pages=pages)\<close>, the
    \<^verbatim>\<open>TableList\<close> as the list of its tables (\<^verbatim>\<open>tables.n\<close> is its length);
  \<^item> \<open>pdfplumber_open path\<close>: \<^verbatim>\<open>pdfplumber.open(path)\<close>;
  \<^item> \<open>pdf_pages pdf\<close>: \<^verbatim>\<open>pdf.pages\<close>;
  \<^item> \<open>page_extract_tables page\<close>: \<^verbatim>\<open>page.extract_tables()\<close>;
  \<^item> \<open>pdf_close pdf\<close>: what leaving the \<^verbatim>\<open>with\<close> block does to the world.
\<close>

record 'df camelot_table =
  df :: 'df

type_synonym cell_table = "string option list list"

datatype 'df table = DataFrame 'df | Rows cell_table

record ('df, 'pdf, 'pg, 'w) table_detectors =
  camelot_read_pdf :: "string \<Rightarrow> string \<Rightarrow> ('df camelot_table list, 'w) io"
  pdfplumber_open :: "string \<Rightarrow> ('pdf, 'w) io"
  pdf_pages :: "'pdf \<Rightarrow> 'pg list"
  page_extract_tables :: "'pg \<Rightarrow> (cell_table list option, 'w) io"
  pdf_close :: "'pdf \<Rightarrow> 'w \<Rightarrow> 'w"

text \<open>
  \<^verbatim>\<open>
  def extract_tables(pdf_path):
      try:
          tables = camelot.read_pdf(pdf_path, pages="all")
          if tables.n > 0:
              return [t.df for t in tables]
      except Exception:
          pass
      results = []
      with pdfplumber.open(pdf_path) as pdf:
          for page in pdf.pages:
              page_tables = page.extract_tables()
              results.extend(page_tables or [])
      return results
  \<close>
  \<open>collect_page_tables\<close> is the \<^verbatim>\<open>for\<close> loop, \<open>results\<close> its accumulator;
  \<^verbatim>\<open>page_tables or []\<close> is the empty list for \<^verbatim>\<open>None\<close> and for the empty list.
  \<open>pdfplumber_tables\<close> is the part of the function after the \<^verbatim>\<open>try\<close> statement.
\<close>

fun collect_page_tables ::
  "('df, 'pdf, 'pg, 'w) table_detectors \<Rightarrow> 'pg list \<Rightarrow> 'df table list \<Rightarrow> ('df table list, 'w) io" where
  "collect_page_tables lib [] results w = (Inr results, w)"
| "collect_page_tables lib (page # rest) results w =
     (case page_extract_tables lib page w of
        (Inl e, w1) \<Rightarrow> (Inl e, w1)
      | (Inr page_tables, w1) \<Rightarrow>
          collect_page_tables lib rest
            (results @ (case page_tables of None \<Rightarrow> [] | Some ts \<Rightarrow> map Rows ts)) w1)"

definition pdfplumber_tables ::
  "('df, 'pdf, 'pg, 'w) table_detectors \<Rightarrow> string \<Rightarrow> ('df table list, 'w) io" where
  "pdfplumber_tables lib pdf_path w =
     (case pdfplumber_open lib pdf_path w of
        (Inl e, w1) \<Rightarrow> (Inl e, w1)
      | (Inr pdf, w1) \<Rightarrow>
          (case collect_page_tables lib (pdf_pages lib pdf) [] w1 of
             (r, w2) \<Rightarrow> (r, pdf_close lib pdf w2)))"

definition extract_tables ::
  "('df, 'pdf, 'pg, 'w) table_detectors \<Rightarrow> string \<Rightarrow> ('df table list, 'w) io" where
  "extract_tables lib pdf_path w =
     (case camelot_read_pdf lib pdf_path ''all'' w of
        (Inr tables, w1) \<Rightarrow>
          if 0 < length tables then (Inr (map (\<lambda>t. DataFrame (df t)) tables), w1)
          else pdfplumber_tables lib pdf_path w1
      | (Inl e, w1) \<Rightarrow> pdfplumber_tables lib pdf_path w1)"

text \<open>
  Two detectors to run the function on. The world is the list of the calls made so far.
  Camelot finds one table in \<^verbatim>\<open>text.pdf\<close>, raises on \<^verbatim>\<open>scan.pdf\<close> and finds nothing
  elsewhere; pdfplumber sees two pages, with no table on the first and one on the second.
\<close>

definition small_detectors :: "(string, string, nat, string list) table_detectors" where
  "small_detectors =
     \<lparr>camelot_read_pdf = (\<lambda>path pages w.
        (if path = ''text.pdf'' then Inr [\<lparr>df = ''frame''\<rparr>]
         else if path = ''scan.pdf'' then Inl (Raised ''camelot'')
         else Inr [],
         w @ [''camelot.read_pdf''])),
      pdfplumber_open = (\<lambda>path w. (Inr path, w @ [''pdfplumber.open''])),
      pdf_pages = (\<lambda>pdf. [0, 1]),
      page_extract_tables = (\<lambda>page w.
        (Inr (if page = 0 then None else Some [[[Some ''a'', None]]]),
         w @ [''page.extract_tables''])),
      pdf_close = (\<lambda>pdf w. w @ [''close''])\<rparr>"

subsection \<open>Reordering pages\<close>

text \<open>
  The operations of PyMuPDF the function uses. A document is an object of the library;
  \<open>doc_pages\<close> observes its pages in order.
  \<^item> \<open>fitz_open path\<close>: \<^verbatim>\<open>fitz.open(path)\<close>;
  \<^item> \<open>fitz_open_empty\<close>: \<^verbatim>\<open>fitz.open()\<close>;
  \<^item> \<open>insert_pdf dst src i j\<close>: \<^verbatim>\<open>dst.insert_pdf(src, from_page=i, to_page=j)\<close>, which
    changes \<^verbatim>\<open>dst\<close> in place: the operation returns the changed document;
  \<^item> \<open>save doc path\<close>: \<^verbatim>\<open>doc.save(path)\<close>.
\<close>

record ('doc, 'pg, 'w) pymupdf =
  fitz_open :: "string \<Rightarrow> ('doc, 'w) io"
  fitz_open_empty :: "('doc, 'w) io"
  insert_pdf :: "'doc \<Rightarrow> 'doc \<Rightarrow> int \<Rightarrow> int \<Rightarrow> ('doc, 'w) io"
  save :: "'doc \<Rightarrow> string \<Rightarrow> (unit, 'w) io"
  doc_pages :: "'doc \<Rightarrow> 'pg list"

text \<open>
  \<^verbatim>\<open>
  def reorder_pages(pdf_path, new_order, output_path="reordered.pdf"):
      src = fitz.open(pdf_path)
      dst = fitz.open()
      for i in new_order:
          dst.insert_pdf(src, from_page=i, to_page=i)
      dst.save(output_path)
      return output_path
  \<close>
  \<open>insert_pages\<close> is the \<^verbatim>\<open>for\<close> loop.
\<close>

fun insert_pages ::
  "('doc, 'pg, 'w) pymupdf \<Rightarrow> 'doc \<Rightarrow> int list \<Rightarrow> 'doc \<Rightarrow> ('doc, 'w) io" where
  "insert_pages lib src [] dst w = (Inr dst, w)"
| "insert_pages lib src (i # rest) dst w =
     (case insert_pdf lib dst src i i w of
        (Inl e, w1) \<Rightarrow> (Inl e, w1)
      | (Inr dst1, w1) \<Rightarrow> insert_pages lib src rest dst1 w1)"

definition reorder_pages ::
  "('doc, 'pg, 'w) pymupdf \<Rightarrow> string \<Rightarrow> int list \<Rightarrow> string option \<Rightarrow> (string, 'w) io" where
  "reorder_pages lib pdf_path new_order output_path =
     bind_io (fitz_open lib pdf_path) (\<lambda>src.
     bind_io (fitz_open_empty lib) (\<lambda>dst.
     bind_io (insert_pages lib src new_order dst) (\<lambda>dst'.
     bind_io (save lib dst' (opt_arg output_path ''reordered.pdf'')) (\<lambda>_.
     return_io (opt_arg output_path ''reordered.pdf'')))))"

text \<open>
  What the library's documentation says of the two operations that build the output, for
  the page numbers the function is used with: \<^verbatim>\<open>fitz.open()\<close> gives a document without
  pages, and \<^verbatim>\<open>insert_pdf\<close> with \<^verbatim>\<open>from_page = to_page = i\<close>, for a page number \<open>i\<close>
  of the source, appends a copy of that page.
\<close>

definition appends_copies :: "('doc, 'pg, 'w) pymupdf \<Rightarrow> bool" where
  "appends_copies lib \<longleftrightarrow>
     (\<forall>w. \<exists>d w'. fitz_open_empty lib w = (Inr d, w') \<and> doc_pages lib d = []) \<and>
     (\<forall>dst src i w. 0 \<le> i \<and> i < int (length (doc_pages lib src)) \<longrightarrow>
        (\<exists>dst' w'. insert_pdf lib dst src i i w = (Inr dst', w') \<and>
           doc_pages lib dst' = doc_pages lib dst @ [doc_pages lib src ! nat i]))"

text \<open>
  A library to run the function on: a document is the list of its pages, the world the
  files on disk, latest first. As PyMuPDF does, it refuses to save a document without
  pages.
\<close>

definition small_pymupdf :: "(string list, string, (string \<times> string list) list) pymupdf" where
  "small_pymupdf =
     \<lparr>fitz_open = (\<lambda>path w.
        (case map_of w path of None \<Rightarrow> Inl (Raised ''no such file'') | Some d \<Rightarrow> Inr d, w)),
      fitz_open_empty = return_io [],
      insert_pdf = (\<lambda>dst src i j. return_io (dst @ take (nat (j - i + 1)) (drop (nat i) src))),
      save = (\<lambda>doc path w.
        if doc = [] then (Inl (Raised ''cannot save with zero pages''), w)
        else (Inr (), (path, doc) # w)),
      doc_pages = (\<lambda>doc. doc)\<rparr>"

section \<open>Properties of \<^verbatim>\<open>utils/pdf_analysis.py\<close>\<close>

subsection \<open>Running a function on the recording library\<close>

lemma opt_arg_simps: "opt_arg None d = d" "opt_arg (Some v) d = v"
  by (simp_all add: opt_arg_def)

lemma traced_sel:
  "RecursiveCharacterTextSplitter (traced lib) cs ov =
     record_call (Call_RecursiveCharacterTextSplitter cs ov) Returns_object (RecursiveCharacterTextSplitter lib cs ov)"
  "split_text (traced lib) sp text = record_call (Call_split_text sp text) Returns_chunks (split_text lib sp text)"
  "HuggingFaceEmbeddings (traced lib) name =
     record_call (Call_HuggingFaceEmbeddings name) Returns_object (HuggingFaceEmbeddings lib name)"
  "FAISS_from_texts (traced lib) chunks emb =
     record_call (Call_FAISS_from_texts chunks emb) Returns_object (FAISS_from_texts lib chunks emb)"
  "as_retriever (traced lib) vs k = record_call (Call_as_retriever vs k) Returns_object (as_retriever lib vs k)"
  "ChatOpenAI (traced lib) args = record_call (Call_ChatOpenAI args) Returns_object (ChatOpenAI lib args)"
  "RetrievalQA_from_chain_type (traced lib) llm ret rsd ct =
     record_call (Call_RetrievalQA_from_chain_type llm ret rsd ct) Returns_object
       (RetrievalQA_from_chain_type lib llm ret rsd ct)"
  "chain_call (traced lib) qa question =
     record_call (Call_chain qa question) Returns_dict (chain_call lib qa question)"
  "invoke (traced lib) llm prompt = record_call (Call_invoke llm prompt) Returns_message (invoke lib llm prompt)"
  by (simp_all add: traced_def)

lemma record_call_run:
  "record_call c ret m (w, evs) =
     (case m w of (Inl e, w') \<Rightarrow> (Inl e, (w', evs @ [(c, Raises e)]))
                | (Inr v, w') \<Rightarrow> (Inr v, (w', evs @ [(c, ret v)])))"
  by (simp add: record_call_def)

lemma bind_record_call:
  "bind_io (record_call c ret m) f (w, evs) =
     (case m w of (Inl e, w') \<Rightarrow> (Inl e, (w', evs @ [(c, Raises e)]))
                | (Inr v, w') \<Rightarrow> f v (w', evs @ [(c, ret v)]))"
  by (simp add: bind_io_def record_call_def split: prod.splits sum.splits)

text \<open>
  The run of each function on \<open>traced lib\<close>, written out: one case distinction per
  library call, in the order of the source, the log growing by one event per call.
\<close>

lemma build_retriever_run:
  "build_retriever_from_text (traced lib) text chunk_size overlap k (w, evs) =
    (let cs = opt_arg chunk_size 800; ov = opt_arg overlap 100; k' = opt_arg k 3 in
     case RecursiveCharacterTextSplitter lib cs ov w of
       (Inl e, w1) \<Rightarrow> (Inl e, (w1, evs @ [(Call_RecursiveCharacterTextSplitter cs ov, Raises e)]))
     | (Inr sp, w1) \<Rightarrow>
    (case split_text lib sp text w1 of
       (Inl e, w2) \<Rightarrow> (Inl e, (w2, evs @ [(Call_RecursiveCharacterTextSplitter cs ov, Returns_object sp),
           (Call_split_text sp text, Raises e)]))
     | (Inr chunks, w2) \<Rightarrow>
    (case HuggingFaceEmbeddings lib embedding_model_name w2 of
       (Inl e, w3) \<Rightarrow> (Inl e, (w3, evs @ [(Call_RecursiveCharacterTextSplitter cs ov, Returns_object sp),
           (Call_split_text sp text, Returns_chunks chunks),
           (Call_HuggingFaceEmbeddings embedding_model_name, Raises e)]))
     | (Inr emb, w3) \<Rightarrow>
    (case FAISS_from_texts lib chunks emb w3 of
       (Inl e, w4) \<Rightarrow> (Inl e, (w4, evs @ [(Call_RecursiveCharacterTextSplitter cs ov, Returns_object sp),
           (Call_split_text sp text, Returns_chunks chunks),
           (Call_HuggingFaceEmbeddings embedding_model_name, Returns_object emb),
           (Call_FAISS_from_texts chunks emb, Raises e)]))
     | (Inr vs, w4) \<Rightarrow>
    (case as_retriever lib vs k' w4 of
       (Inl e, w5) \<Rightarrow> (Inl e, (w5, evs @ [(Call_RecursiveCharacterTextSplitter cs ov, Returns_object sp),
           (Call_split_text sp text, Returns_chunks chunks),
           (Call_HuggingFaceEmbeddings embedding_model_name, Returns_object emb),
           (Call_FAISS_from_texts chunks emb, Returns_object vs),
           (Call_as_retriever vs k', Raises e)]))
     | (Inr ret, w5) \<Rightarrow> (Inr ret, (w5, evs @ [(Call_RecursiveCharacterTextSplitter cs ov, Returns_object sp),
           (Call_split_text sp text, Returns_chunks chunks),
           (Call_HuggingFaceEmbeddings embedding_model_name, Returns_object emb),
           (Call_FAISS_from_texts chunks emb, Returns_object vs),
           (Call_as_retriever vs k', Returns_object ret)])))))))"
  by (simp add: build_retriever_from_text_def traced_sel bind_record_call record_call_run Let_def
      split: prod.splits sum.splits)

lemma rag_qa_run:
  "rag_qa (traced lib) environ text question m (w, evs) =
    (case build_retriever_from_text (traced lib) text None None None (w, evs) of
       (Inl e, s) \<Rightarrow> (Inl e, s)
     | (Inr ret, (w1, evs1)) \<Rightarrow>
    (case ChatOpenAI lib (qa_params environ m) w1 of
       (Inl e, w2) \<Rightarrow> (Inl e, (w2, evs1 @ [(Call_ChatOpenAI (qa_params environ m), Raises e)]))
     | (Inr llm, w2) \<Rightarrow>
    (case RetrievalQA_from_chain_type lib llm ret True ''stuff'' w2 of
       (Inl e, w3) \<Rightarrow> (Inl e, (w3, evs1 @ [(Call_ChatOpenAI (qa_params environ m), Returns_object llm),
           (Call_RetrievalQA_from_chain_type llm ret True ''stuff'', Raises e)]))
     | (Inr qa, w3) \<Rightarrow>
    (case chain_call lib qa question w3 of
       (Inl e, w4) \<Rightarrow> (Inl e, (w4, evs1 @ [(Call_ChatOpenAI (qa_params environ m), Returns_object llm),
           (Call_RetrievalQA_from_chain_type llm ret True ''stuff'', Returns_object qa),
           (Call_chain qa question, Raises e)]))
     | (Inr result, w4) \<Rightarrow>
         (case map_of result ''result'' of
            None \<Rightarrow> Inl (KeyError ''result'')
          | Some answer \<Rightarrow> Inr (answer, case map_of result ''source_documents'' of
                                           None \<Rightarrow> PyList [] | Some docs \<Rightarrow> docs),
          (w4, evs1 @ [(Call_ChatOpenAI (qa_params environ m), Returns_object llm),
           (Call_RetrievalQA_from_chain_type llm ret True ''stuff'', Returns_object qa),
           (Call_chain qa question, Returns_dict result)]))))))"
  unfolding rag_qa_def together_llm_def qa_params_def
  by (simp add: traced_sel bind_record_call bind_io_def [of "build_retriever_from_text _ _ _ _ _"]
        return_io_def raise_io_def opt_arg_def
      split: prod.splits sum.splits option.splits)

lemma summarize_text_run:
  "summarize_text (traced lib) environ text m (w, evs) =
     (case ChatOpenAI lib (summary_params environ m) w of
        (Inl e, w1) \<Rightarrow> (Inl e, (w1, evs @ [(Call_ChatOpenAI (summary_params environ m), Raises e)]))
      | (Inr llm, w1) \<Rightarrow>
          (case invoke lib llm (summary_instruction @ text) w1 of
             (Inl e, w2) \<Rightarrow>
               (Inl e, (w2, evs @ [(Call_ChatOpenAI (summary_params environ m), Returns_object llm),
                                   (Call_invoke llm (summary_instruction @ text), Raises e)]))
           | (Inr output, w2) \<Rightarrow>
               (Inr (strip (content output)),
                (w2, evs @ [(Call_ChatOpenAI (summary_params environ m), Returns_object llm),
                            (Call_invoke llm (summary_instruction @ text), Returns_message output)]))))"
  unfolding summarize_text_def together_llm_def summary_params_def
  by (simp add: traced_sel bind_record_call record_call_run return_io_def opt_arg_def Let_def
      split: prod.splits sum.splits)

text \<open>
  The recorder changes nothing: forgetting the log of a recorded run gives the run on the
  library itself.
\<close>

lemma build_retriever_untraced:
  "map_prod id fst (build_retriever_from_text (traced lib) text cs ov k (w, evs)) =
     build_retriever_from_text lib text cs ov k w"
  by (simp add: build_retriever_run build_retriever_from_text_def [of lib] bind_io_def Let_def
      split: prod.splits sum.splits)

lemma rag_qa_untraced:
  "map_prod id fst (rag_qa (traced lib) environ text question m (w, evs)) =
     rag_qa lib environ text question m w"
  by (simp add: build_retriever_untraced [of lib "text" None None None w evs, symmetric] rag_qa_run rag_qa_def [of lib] together_llm_def qa_params_def
        bind_io_def return_io_def raise_io_def opt_arg_simps
      split: prod.splits sum.splits option.splits)

lemma summarize_text_untraced:
  "map_prod id fst (summarize_text (traced lib) environ text m (w, evs)) =
     summarize_text lib environ text m w"
  by (simp add: summarize_text_run summarize_text_def [of lib] together_llm_def summary_params_def
        bind_io_def return_io_def Let_def opt_arg_simps
      split: prod.splits sum.splits)

subsection \<open>\<^verbatim>\<open>str.strip\<close>\<close>

text \<open>
  The stripped string is the original without a prefix and a suffix of whitespace, and it
  neither begins nor ends with whitespace.
\<close>

lemma strip_decomp: "\<exists>l r. s = l @ strip s @ r \<and> list_all isspace l \<and> list_all isspace r"
proof -
  let ?u = "rev (dropWhile isspace (rev s))"
  have "rev s = takeWhile isspace (rev s) @ dropWhile isspace (rev s)" by simp
  then have "rev (rev s) = rev (takeWhile isspace (rev s) @ dropWhile isspace (rev s))"
    by (rule arg_cong)
  then have 1: "s = ?u @ rev (takeWhile isspace (rev s))" by (simp only: rev_append rev_rev_ident)
  have 2: "?u = takeWhile isspace ?u @ strip s"
    by (simp add: strip_def)
  have "s = takeWhile isspace ?u @ strip s @ rev (takeWhile isspace (rev s))"
    using 1 2 by (metis append.assoc)
  moreover have "list_all isspace (takeWhile isspace ?u)"
    unfolding list_all_iff by (meson set_takeWhileD)
  moreover have "list_all isspace (rev (takeWhile isspace (rev s)))"
    unfolding list_all_iff set_rev by (meson set_takeWhileD)
  ultimately show ?thesis by blast
qed

lemma strip_ends: "strip s = [] \<or> (\<not> isspace (hd (strip s)) \<and> \<not> isspace (last (strip s)))"
proof (cases "strip s = []")
  case True then show ?thesis by simp
next
  case False
  let ?t = "dropWhile isspace (rev s)"
  have ne: "?t \<noteq> []"
  proof
    assume "?t = []"
    then have "strip s = dropWhile isspace (rev [])"
      unfolding strip_def by (rule arg_cong [where f = "\<lambda>x. dropWhile isspace (rev x)"])
    then have "strip s = []" by simp
    with False show False ..
  qed
  have h: "\<not> isspace (hd (strip s))" using False unfolding strip_def by (rule hd_dropWhile)
  have "rev ?t = takeWhile isspace (rev ?t) @ strip s" by (simp add: strip_def)
  then have "last (rev ?t) = last (strip s)" using False by (metis last_appendR)
  moreover have "last (rev ?t) = hd ?t" using ne by (simp add: last_rev)
  ultimately have "\<not> isspace (last (strip s))" using hd_dropWhile[OF ne] by simp
  with h show ?thesis by simp
qed

lemmas small_defs = small_library_def fresh_world_def environ_with_key_def return_io_def raise_io_def
  opt_arg_simps

subsection \<open>Summarization\<close>

text \<open>
  C5. For every document text, \<^verbatim>\<open>summarize_text\<close> builds its prompt as the fixed
  instruction followed by the whole text (nothing is split, retrieved or cut: the only
  library calls are the construction of the chat model and one \<^verbatim>\<open>invoke\<close>, and the
  prompt is as long as the instruction and the text together), calls the remote model at
  most once, exactly once when the chat model could be constructed, and returns the
  content of the response stripped: the response is the result with whitespace only
  before and after it, and the result neither begins nor ends with whitespace. An
  exception of either call is the outcome of the function.
\<close>

theorem summarize_text_whole_text_one_call_trimmed:
  "summarize_text (traced lib) environ text m (w, evs) =
     (case ChatOpenAI lib (summary_params environ m) w of
        (Inl e, w1) \<Rightarrow> (Inl e, (w1, evs @ [(Call_ChatOpenAI (summary_params environ m), Raises e)]))
      | (Inr llm, w1) \<Rightarrow>
          (case invoke lib llm (summary_instruction @ text) w1 of
             (Inl e, w2) \<Rightarrow>
               (Inl e, (w2, evs @ [(Call_ChatOpenAI (summary_params environ m), Returns_object llm),
                                   (Call_invoke llm (summary_instruction @ text), Raises e)]))
           | (Inr output, w2) \<Rightarrow>
               (Inr (strip (content output)),
                (w2, evs @ [(Call_ChatOpenAI (summary_params environ m), Returns_object llm),
                            (Call_invoke llm (summary_instruction @ text), Returns_message output)]))))
   \<and> length (calls_of Api_invoke (snd (snd (summarize_text (traced lib) environ text m (w, [])))))
       \<le> 1
   \<and> length (summary_instruction @ text) = length summary_instruction + length text
   \<and> (\<exists>l r. response = l @ strip response @ r \<and> list_all isspace l \<and> list_all isspace r)
   \<and> (strip response = [] \<or> \<not> isspace (hd (strip response)) \<and> \<not> isspace (last (strip response)))"
proof -
  have "length (calls_of Api_invoke (snd (snd (summarize_text (traced lib) environ text m (w, [])))))
      \<le> 1"
    by (simp add: summarize_text_run calls_of_def split: prod.splits sum.splits)
  moreover note strip_decomp [of response] strip_ends [of response]
    summarize_text_run [of lib environ "text" m w evs]
  ultimately show ?thesis by simp
qed

theorem summarize_text_whole_text_one_call_trimmed_witness:
  "summarize_text (traced small_library) environ_with_key ''The sky is blue.'' None (fresh_world, []) =
     (Inr ''- one fact'',
      (\<lparr>loaded = 0, sent = [summary_instruction @ ''The sky is blue.'']\<rparr>,
       [(Call_ChatOpenAI (summary_params environ_with_key None),
           Returns_object (Llm (summary_params environ_with_key None))),
        (Call_invoke (Llm (summary_params environ_with_key None))
           (summary_instruction @ ''The sky is blue.''),
           Returns_message \<lparr>content = '' - one fact '' @ [CHR 0x0A]\<rparr>)]))"
proof -
  note run = summarize_text_whole_text_one_call_trimmed
    [of small_library environ_with_key "''The sky is blue.''" None fresh_world "[]" "[]",
      THEN conjunct1]
  show ?thesis
    unfolding run
    by (simp add: small_defs summary_params_def strip_def isspace_def)
qed

text \<open>
  C7, as stated: invoked with empty document text, the summarization flow either fails
  with a validation error before calling the remote model or returns an empty summary, and
  does not pass the empty text into a prompt. On the small library, with a key configured
  and the empty text, the flow raises nothing, sends the bare instruction to the remote
  model and returns the model's answer, which is not empty.
\<close>

theorem summarize_text_empty_text_counterexample:
  "summarize_text (traced small_library) environ_with_key [] None (fresh_world, []) =
     (Inr ''- one fact'',
      (\<lparr>loaded = 0, sent = [summary_instruction]\<rparr>,
       [(Call_ChatOpenAI (summary_params environ_with_key None),
           Returns_object (Llm (summary_params environ_with_key None))),
        (Call_invoke (Llm (summary_params environ_with_key None)) summary_instruction,
           Returns_message \<lparr>content = '' - one fact '' @ [CHR 0x0A]\<rparr>)]))"
  by (simp add: summarize_text_run small_defs summary_params_def strip_def isspace_def)

text \<open>
  C7, amended: \<^verbatim>\<open>summarize_text\<close> does not look at the text. With the empty text,
  whenever the chat model can be constructed, the prompt sent to the remote model is the
  instruction alone, it is the only prompt sent, and the result is the stripped response,
  or the exception of the call.
\<close>

theorem summarize_text_empty_text_is_sent:
  assumes "ChatOpenAI lib (summary_params environ m) w = (Inr llm, w1)"
  shows "summarize_text (traced lib) environ [] m (w, evs) =
     (case invoke lib llm summary_instruction w1 of
        (Inl e, w2) \<Rightarrow>
          (Inl e, (w2, evs @ [(Call_ChatOpenAI (summary_params environ m), Returns_object llm),
                              (Call_invoke llm summary_instruction, Raises e)]))
      | (Inr output, w2) \<Rightarrow>
          (Inr (strip (content output)),
           (w2, evs @ [(Call_ChatOpenAI (summary_params environ m), Returns_object llm),
                       (Call_invoke llm summary_instruction, Returns_message output)])))
   \<and> List.map_filter prompt_of (snd (snd (summarize_text (traced lib) environ [] m (w, [])))) =
       [summary_instruction]"
  using assms
  by (simp add: summarize_text_run List.map_filter_def split: prod.splits sum.splits)

lemma small_chat_model:
  "ChatOpenAI small_library (summary_params environ_with_key None) fresh_world =
     (Inr (Llm (summary_params environ_with_key None)), fresh_world)"
  by (simp add: small_defs summary_params_def)

theorem summarize_text_empty_text_is_sent_witness:
  "List.map_filter prompt_of
     (snd (snd (summarize_text (traced small_library) environ_with_key [] None (fresh_world, [])))) =
   [summary_instruction]"
  using summarize_text_empty_text_is_sent [OF small_chat_model] by blast

subsection \<open>Question answering\<close>

text \<open>
  C6. For every document text and question, \<^verbatim>\<open>rag_qa\<close> is a linear pipeline. Whatever
  the libraries do, the calls of a run are an initial segment of: construct the splitter,
  split the text, construct the embedding model, embed the chunks and build the index
  (\<^verbatim>\<open>FAISS.from_texts\<close>), make the retriever, construct the chat model, construct the
  chain, run the chain on the question (which embeds the question, retrieves, builds the
  prompt and calls the remote model inside the library). A call that raises is the last
  call of the run and its exception is the outcome of \<^verbatim>\<open>rag_qa\<close>: nothing is caught
  and no partial result is returned. The other failure is the \<^verbatim>\<open>KeyError\<close> of
  \<^verbatim>\<open>result["result"]\<close> after eight successful calls. A run that returns has made all
  eight calls, each fed with the results of the earlier ones, and returns the pair of the
  chain's answer and its source documents (the empty list when the chain returned none).
\<close>

theorem rag_qa_linear_pipeline:
  assumes "rag_qa (traced lib) environ text question m (w, []) = (r, (w', evs))"
  shows "map (api_of \<circ> fst) evs = take (length evs) rag_qa_pipeline
    \<and> (\<forall>c e. (c, Raises e) \<in> set evs \<longrightarrow> r = Inl e \<and> last evs = (c, Raises e))
    \<and> (\<forall>e. r = Inl e \<longrightarrow>
          (evs \<noteq> [] \<and> snd (last evs) = Raises e)
        \<or> (length evs = 8 \<and> \<not> list_ex raised evs \<and> e = KeyError ''result''))
    \<and> (\<forall>answer sources. r = Inr (answer, sources) \<longrightarrow>
          (\<exists>splitter chunks emb vs ret llm qa result.
             evs = [(Call_RecursiveCharacterTextSplitter 800 100, Returns_object splitter),
                    (Call_split_text splitter text, Returns_chunks chunks),
                    (Call_HuggingFaceEmbeddings embedding_model_name, Returns_object emb),
                    (Call_FAISS_from_texts chunks emb, Returns_object vs),
                    (Call_as_retriever vs 3, Returns_object ret),
                    (Call_ChatOpenAI (qa_params environ m), Returns_object llm),
                    (Call_RetrievalQA_from_chain_type llm ret True ''stuff'', Returns_object qa),
                    (Call_chain qa question, Returns_dict result)]
           \<and> map_of result ''result'' = Some answer
           \<and> sources = (case map_of result ''source_documents'' of
                          None \<Rightarrow> PyList [] | Some docs \<Rightarrow> docs)))
    \<and> rag_qa lib environ text question m w = (r, w')"
proof -
  have shape: "map (api_of \<circ> fst) evs = take (length evs) rag_qa_pipeline"
    using assms
    by (auto simp add: rag_qa_run build_retriever_run rag_qa_pipeline_def opt_arg_simps
        split: prod.splits sum.splits option.splits)
  have stop: "\<forall>c e. (c, Raises e) \<in> set evs \<longrightarrow> r = Inl e \<and> last evs = (c, Raises e)"
    using assms
    by (auto simp add: rag_qa_run build_retriever_run opt_arg_simps
        split: prod.splits sum.splits option.splits)
  have fail: "\<forall>e. r = Inl e \<longrightarrow>
          (evs \<noteq> [] \<and> snd (last evs) = Raises e)
        \<or> (length evs = 8 \<and> \<not> list_ex raised evs \<and> e = KeyError ''result'')"
    using assms
    by (auto simp add: rag_qa_run build_retriever_run opt_arg_simps
        split: prod.splits sum.splits option.splits)
  have ok: "\<forall>answer sources. r = Inr (answer, sources) \<longrightarrow>
          (\<exists>splitter chunks emb vs ret llm qa result.
             evs = [(Call_RecursiveCharacterTextSplitter 800 100, Returns_object splitter),
                    (Call_split_text splitter text, Returns_chunks chunks),
                    (Call_HuggingFaceEmbeddings embedding_model_name, Returns_object emb),
                    (Call_FAISS_from_texts chunks emb, Returns_object vs),
                    (Call_as_retriever vs 3, Returns_object ret),
                    (Call_ChatOpenAI (qa_params environ m), Returns_object llm),
                    (Call_RetrievalQA_from_chain_type llm ret True ''stuff'', Returns_object qa),
                    (Call_chain qa question, Returns_dict result)]
           \<and> map_of result ''result'' = Some answer
           \<and> sources = (case map_of result ''source_documents'' of
                          None \<Rightarrow> PyList [] | Some docs \<Rightarrow> docs))"
    using assms
    by (fastforce simp add: rag_qa_run build_retriever_run opt_arg_simps
        split: prod.split_asm sum.split_asm option.split_asm)
  have plain: "rag_qa lib environ text question m w = (r, w')"
    using rag_qa_untraced [of lib environ "text" question m w "[]"] assms by simp
  from shape stop fail ok plain show ?thesis by blast
qed

lemma small_rag_qa_run:
  "rag_qa (traced small_library) environ_with_key ''The sky is blue.'' ''What color is the sky?'' None
       (fresh_world, []) =
     (Inr (PyStr ''blue'', PyList [Document ''The sky is blue.'']),
      (\<lparr>loaded = 1, sent = [''What color is the sky?'']\<rparr>,
       [(Call_RecursiveCharacterTextSplitter 800 100, Returns_object (Splitter 800 100)),
        (Call_split_text (Splitter 800 100) ''The sky is blue.'', Returns_chunks [''The sky is blue.'']),
        (Call_HuggingFaceEmbeddings embedding_model_name,
           Returns_object (Embeddings embedding_model_name 0)),
        (Call_FAISS_from_texts [''The sky is blue.''] (Embeddings embedding_model_name 0),
           Returns_object (Store [''The sky is blue.''] (Embeddings embedding_model_name 0))),
        (Call_as_retriever (Store [''The sky is blue.''] (Embeddings embedding_model_name 0)) 3,
           Returns_object (Retriever (Store [''The sky is blue.''] (Embeddings embedding_model_name 0)) 3)),
        (Call_ChatOpenAI (qa_params environ_with_key None),
           Returns_object (Llm (qa_params environ_with_key None))),
        (Call_RetrievalQA_from_chain_type (Llm (qa_params environ_with_key None))
           (Retriever (Store [''The sky is blue.''] (Embeddings embedding_model_name 0)) 3) True ''stuff'',
           Returns_object (Chain (Llm (qa_params environ_with_key None))
             (Retriever (Store [''The sky is blue.''] (Embeddings embedding_model_name 0)) 3))),
        (Call_chain (Chain (Llm (qa_params environ_with_key None))
             (Retriever (Store [''The sky is blue.''] (Embeddings embedding_model_name 0)) 3))
           ''What color is the sky?'',
           Returns_dict [(''query'', PyStr ''What color is the sky?''), (''result'', PyStr ''blue''),
                         (''source_documents'', PyList [Document ''The sky is blue.''])])]))"
  by (simp add: rag_qa_run build_retriever_run small_defs qa_params_def)

lemma small_rag_qa_no_key:
  "rag_qa (traced small_library) Map.empty ''The sky is blue.'' ''What color is the sky?'' None
       (fresh_world, []) =
     (Inl (Raised ''no api key''),
      (\<lparr>loaded = 1, sent = []\<rparr>,
       [(Call_RecursiveCharacterTextSplitter 800 100, Returns_object (Splitter 800 100)),
        (Call_split_text (Splitter 800 100) ''The sky is blue.'', Returns_chunks [''The sky is blue.'']),
        (Call_HuggingFaceEmbeddings embedding_model_name,
           Returns_object (Embeddings embedding_model_name 0)),
        (Call_FAISS_from_texts [''The sky is blue.''] (Embeddings embedding_model_name 0),
           Returns_object (Store [''The sky is blue.''] (Embeddings embedding_model_name 0))),
        (Call_as_retriever (Store [''The sky is blue.''] (Embeddings embedding_model_name 0)) 3,
           Returns_object (Retriever (Store [''The sky is blue.''] (Embeddings embedding_model_name 0)) 3)),
        (Call_ChatOpenAI (qa_params Map.empty None), Raises (Raised ''no api key''))]))"
  by (simp add: rag_qa_run build_retriever_run small_defs qa_params_def)

theorem rag_qa_linear_pipeline_witness:
  "rag_qa small_library environ_with_key ''The sky is blue.'' ''What color is the sky?'' None fresh_world
     = (Inr (PyStr ''blue'', PyList [Document ''The sky is blue.'']),
        \<lparr>loaded = 1, sent = [''What color is the sky?'']\<rparr>)
   \<and> rag_qa small_library Map.empty ''The sky is blue.'' ''What color is the sky?'' None fresh_world
     = (Inl (Raised ''no api key''), \<lparr>loaded = 1, sent = []\<rparr>)"
  using rag_qa_linear_pipeline [OF small_rag_qa_run] rag_qa_linear_pipeline [OF small_rag_qa_no_key]
  by blast

subsection \<open>The embedding model\<close>

text \<open>
  C4, as stated: the embedding model is loaded once, on first use, and every later call
  uses the instance already loaded rather than constructing a new one. Two questions asked
  one after the other in the same process construct the embedding model twice.
\<close>

theorem embedding_model_loaded_once_counterexample:
  "length (calls_of Api_HuggingFaceEmbeddings
     (snd (snd (rag_qa (traced small_library) environ_with_key ''The sky is blue.'' ''What is green?'' None
        (snd (rag_qa (traced small_library) environ_with_key ''The sky is blue.''
                ''What color is the sky?'' None (fresh_world, []))))))) = 2"
  by (simp add: rag_qa_run build_retriever_run small_defs qa_params_def calls_of_def)

text \<open>
  C4, amended: the file keeps no embedding model between calls. Every invocation of
  \<^verbatim>\<open>build_retriever_from_text\<close> in which the splitter is constructed and
  \<^verbatim>\<open>split_text\<close> returns calls the \<^verbatim>\<open>HuggingFaceEmbeddings\<close> constructor exactly
  once, whatever the log already holds, that is, whatever was constructed before; an
  invocation in which one of those two calls raises constructs none. When the constructor
  returns, the object it returned is handed, with the chunks \<^verbatim>\<open>split_text\<close> returned,
  to the one \<^verbatim>\<open>FAISS.from_texts\<close> call of the invocation; when it raises, that call is
  not made. A call of \<^verbatim>\<open>rag_qa\<close> makes the constructor calls of its one
  \<^verbatim>\<open>build_retriever_from_text(text)\<close> and no other.
\<close>

theorem embedding_model_constructed_per_invocation:
  "(RecursiveCharacterTextSplitter lib (opt_arg chunk_size 800) (opt_arg overlap 100) w = (Inl e, w1) \<longrightarrow>
      calls_of Api_HuggingFaceEmbeddings
        (snd (snd (build_retriever_from_text (traced lib) text chunk_size overlap k (w, evs)))) =
      calls_of Api_HuggingFaceEmbeddings evs)
   \<and> (RecursiveCharacterTextSplitter lib (opt_arg chunk_size 800) (opt_arg overlap 100) w = (Inr sp, w1)
        \<and> split_text lib sp text w1 = (Inl e, w2) \<longrightarrow>
      calls_of Api_HuggingFaceEmbeddings
        (snd (snd (build_retriever_from_text (traced lib) text chunk_size overlap k (w, evs)))) =
      calls_of Api_HuggingFaceEmbeddings evs)
   \<and> (RecursiveCharacterTextSplitter lib (opt_arg chunk_size 800) (opt_arg overlap 100) w = (Inr sp, w1)
        \<and> split_text lib sp text w1 = (Inr chunks, w2)
        \<and> HuggingFaceEmbeddings lib embedding_model_name w2 = (Inl e, w3) \<longrightarrow>
      calls_of Api_HuggingFaceEmbeddings
        (snd (snd (build_retriever_from_text (traced lib) text chunk_size overlap k (w, evs)))) =
      calls_of Api_HuggingFaceEmbeddings evs @
        [(Call_HuggingFaceEmbeddings embedding_model_name, Raises e)]
      \<and> calls_of Api_FAISS_from_texts
        (snd (snd (build_retriever_from_text (traced lib) text chunk_size overlap k (w, evs)))) =
      calls_of Api_FAISS_from_texts evs)
   \<and> (RecursiveCharacterTextSplitter lib (opt_arg chunk_size 800) (opt_arg overlap 100) w = (Inr sp, w1)
        \<and> split_text lib sp text w1 = (Inr chunks, w2)
        \<and> HuggingFaceEmbeddings lib embedding_model_name w2 = (Inr emb, w3) \<longrightarrow>
      calls_of Api_HuggingFaceEmbeddings
        (snd (snd (build_retriever_from_text (traced lib) text chunk_size overlap k (w, evs)))) =
      calls_of Api_HuggingFaceEmbeddings evs @
        [(Call_HuggingFaceEmbeddings embedding_model_name, Returns_object emb)]
      \<and> map fst (calls_of Api_FAISS_from_texts
        (snd (snd (build_retriever_from_text (traced lib) text chunk_size overlap k (w, evs))))) =
      map fst (calls_of Api_FAISS_from_texts evs) @ [Call_FAISS_from_texts chunks emb])
   \<and> (\<forall>r s. rag_qa (traced lib) environ text question m (w, evs) = (r, s) \<longrightarrow>
        (\<exists>r' s'. build_retriever_from_text (traced lib) text None None None (w, evs) = (r', s')
          \<and> calls_of Api_HuggingFaceEmbeddings (snd s) = calls_of Api_HuggingFaceEmbeddings (snd s')))"
proof -
  have a: "RecursiveCharacterTextSplitter lib (opt_arg chunk_size 800) (opt_arg overlap 100) w = (Inl e, w1) \<longrightarrow>
      calls_of Api_HuggingFaceEmbeddings
        (snd (snd (build_retriever_from_text (traced lib) text chunk_size overlap k (w, evs)))) =
      calls_of Api_HuggingFaceEmbeddings evs"
    by (simp add: build_retriever_run calls_of_def Let_def)
  have b: "RecursiveCharacterTextSplitter lib (opt_arg chunk_size 800) (opt_arg overlap 100) w = (Inr sp, w1)
        \<and> split_text lib sp text w1 = (Inl e, w2) \<longrightarrow>
      calls_of Api_HuggingFaceEmbeddings
        (snd (snd (build_retriever_from_text (traced lib) text chunk_size overlap k (w, evs)))) =
      calls_of Api_HuggingFaceEmbeddings evs"
    by (simp add: build_retriever_run calls_of_def Let_def)
  have c: "RecursiveCharacterTextSplitter lib (opt_arg chunk_size 800) (opt_arg overlap 100) w = (Inr sp, w1)
        \<and> split_text lib sp text w1 = (Inr chunks, w2)
        \<and> HuggingFaceEmbeddings lib embedding_model_name w2 = (Inl e, w3) \<longrightarrow>
      calls_of Api_HuggingFaceEmbeddings
        (snd (snd (build_retriever_from_text (traced lib) text chunk_size overlap k (w, evs)))) =
      calls_of Api_HuggingFaceEmbeddings evs @
        [(Call_HuggingFaceEmbeddings embedding_model_name, Raises e)]
      \<and> calls_of Api_FAISS_from_texts
        (snd (snd (build_retriever_from_text (traced lib) text chunk_size overlap k (w, evs)))) =
      calls_of Api_FAISS_from_texts evs"
    by (simp add: build_retriever_run calls_of_def Let_def)
  have d: "RecursiveCharacterTextSplitter lib (opt_arg chunk_size 800) (opt_arg overlap 100) w = (Inr sp, w1)
        \<and> split_text lib sp text w1 = (Inr chunks, w2)
        \<and> HuggingFaceEmbeddings lib embedding_model_name w2 = (Inr emb, w3) \<longrightarrow>
      calls_of Api_HuggingFaceEmbeddings
        (snd (snd (build_retriever_from_text (traced lib) text chunk_size overlap k (w, evs)))) =
      calls_of Api_HuggingFaceEmbeddings evs @
        [(Call_HuggingFaceEmbeddings embedding_model_name, Returns_object emb)]
      \<and> map fst (calls_of Api_FAISS_from_texts
        (snd (snd (build_retriever_from_text (traced lib) text chunk_size overlap k (w, evs))))) =
      map fst (calls_of Api_FAISS_from_texts evs) @ [Call_FAISS_from_texts chunks emb]"
    by (simp add: build_retriever_run calls_of_def Let_def split: prod.splits sum.splits)
  have f: "\<forall>r s. rag_qa (traced lib) environ text question m (w, evs) = (r, s) \<longrightarrow>
        (\<exists>r' s'. build_retriever_from_text (traced lib) text None None None (w, evs) = (r', s')
          \<and> calls_of Api_HuggingFaceEmbeddings (snd s) = calls_of Api_HuggingFaceEmbeddings (snd s'))"
    by (auto simp add: rag_qa_run calls_of_def split: prod.splits sum.splits option.splits)
  from a b c d f show ?thesis by blast
qed

theorem embedding_model_constructed_per_invocation_witness:
  "calls_of Api_HuggingFaceEmbeddings
     (snd (snd (build_retriever_from_text (traced small_library) [] None None None
        (\<lparr>loaded = 1, sent = []\<rparr>,
         [(Call_HuggingFaceEmbeddings embedding_model_name,
           Returns_object (Embeddings embedding_model_name 0))])))) =
     [(Call_HuggingFaceEmbeddings embedding_model_name,
         Returns_object (Embeddings embedding_model_name 0)),
      (Call_HuggingFaceEmbeddings embedding_model_name,
         Returns_object (Embeddings embedding_model_name 1))]
   \<and> fst (build_retriever_from_text small_library [] None None None \<lparr>loaded = 1, sent = []\<rparr>) =
       Inl (Raised ''no texts to index'')"
proof -
  have 1: "RecursiveCharacterTextSplitter small_library (opt_arg None 800) (opt_arg None 100)
             \<lparr>loaded = 1, sent = []\<rparr> = (Inr (Splitter 800 100), \<lparr>loaded = 1, sent = []\<rparr>)"
    by (simp add: small_defs)
  have 2: "split_text small_library (Splitter 800 100) [] \<lparr>loaded = 1, sent = []\<rparr> =
             (Inr [], \<lparr>loaded = 1, sent = []\<rparr>)"
    by (simp add: small_defs)
  have 3: "HuggingFaceEmbeddings small_library embedding_model_name \<lparr>loaded = 1, sent = []\<rparr> =
             (Inr (Embeddings embedding_model_name 1), \<lparr>loaded = 2, sent = []\<rparr>)"
    by (simp add: small_defs)
  from embedding_model_constructed_per_invocation
    [where lib = small_library and chunk_size = None and overlap = None and k = None
       and w = "\<lparr>loaded = 1, sent = []\<rparr>" and ?text = "[]"
       and evs = "[(Call_HuggingFaceEmbeddings embedding_model_name,
           Returns_object (Embeddings embedding_model_name 0))]"
       and sp = "Splitter 800 100" and ?w1.0 = "\<lparr>loaded = 1, sent = []\<rparr>"
       and chunks = "[]" and ?w2.0 = "\<lparr>loaded = 1, sent = []\<rparr>"
       and emb = "Embeddings embedding_model_name 1" and ?w3.0 = "\<lparr>loaded = 2, sent = []\<rparr>"] 1 2 3
  have "calls_of Api_HuggingFaceEmbeddings
     (snd (snd (build_retriever_from_text (traced small_library) [] None None None
        (\<lparr>loaded = 1, sent = []\<rparr>,
         [(Call_HuggingFaceEmbeddings embedding_model_name,
           Returns_object (Embeddings embedding_model_name 0))])))) =
     calls_of Api_HuggingFaceEmbeddings
         [(Call_HuggingFaceEmbeddings embedding_model_name,
           Returns_object (Embeddings embedding_model_name 0))] @
     [(Call_HuggingFaceEmbeddings embedding_model_name,
         Returns_object (Embeddings embedding_model_name 1))]"
    by blast
  moreover have "fst (build_retriever_from_text small_library [] None None None
       \<lparr>loaded = 1, sent = []\<rparr>) = Inl (Raised ''no texts to index'')"
    by (simp add: build_retriever_from_text_def bind_io_def small_defs)
  ultimately show ?thesis by (simp add: calls_of_def)
qed

subsection \<open>Defaults\<close>

text \<open>
  C8. The default configuration, read off the arguments the library calls are made with.
  With its optional arguments left out, \<^verbatim>\<open>build_retriever_from_text\<close> constructs its
  one splitter with chunk size 800 and overlap 100, splits the text with that splitter, and
  makes every retriever with \<open>k = 3\<close> (exactly one when it returns); arguments that are
  given are used instead. \<^verbatim>\<open>rag_qa\<close> runs with these defaults: splitter 800 and 100,
  retriever 3, and a chat model constructed with temperature 0.2 and 512 output tokens,
  the defaults of \<^verbatim>\<open>together_llm\<close>. The summarization flow constructs its chat model
  with temperature 0.2 and 400 output tokens. Both token limits lie between 400 and 512.
\<close>

theorem default_configuration:
  "List.map_filter splitter_sizes_of
      (snd (snd (build_retriever_from_text (traced lib) text None None None (w, [])))) = [(800, 100)]
   \<and> List.map_filter splitter_sizes_of
      (snd (snd (build_retriever_from_text (traced lib) text (Some cs) (Some ov) (Some k) (w, [])))) =
       [(cs, ov)]
   \<and> (RecursiveCharacterTextSplitter lib 800 100 w = (Inr sp, w1) \<longrightarrow>
        map fst (calls_of Api_split_text
          (snd (snd (build_retriever_from_text (traced lib) text None None None (w, []))))) =
        [Call_split_text sp text])
   \<and> set (List.map_filter retriever_k_of
        (snd (snd (build_retriever_from_text (traced lib) text None None None (w, []))))) \<subseteq> {3}
   \<and> (\<forall>ret s. build_retriever_from_text (traced lib) text None None None (w, []) = (Inr ret, s) \<longrightarrow>
        List.map_filter retriever_k_of (snd s) = [3])
   \<and> (\<forall>ret s. build_retriever_from_text (traced lib) text (Some cs) (Some ov) (Some k) (w, []) =
          (Inr ret, s) \<longrightarrow>
        List.map_filter retriever_k_of (snd s) = [k])
   \<and> List.map_filter splitter_sizes_of
        (snd (snd (rag_qa (traced lib) environ text question m (w, [])))) = [(800, 100)]
   \<and> set (List.map_filter retriever_k_of
        (snd (snd (rag_qa (traced lib) environ text question m (w, []))))) \<subseteq> {3}
   \<and> (\<forall>p s. rag_qa (traced lib) environ text question m (w, []) = (Inr p, s) \<longrightarrow>
        List.map_filter retriever_k_of (snd s) = [3]
        \<and> map (\<lambda>a. (temperature a, max_tokens a)) (List.map_filter chat_params_of (snd s)) =
            [(0.2, 512)])
   \<and> set (map (\<lambda>a. (temperature a, max_tokens a))
         (List.map_filter chat_params_of
            (snd (snd (rag_qa (traced lib) environ text question m (w, [])))))) \<subseteq> {(0.2, 512)}
   \<and> together_llm lib environ None None None =
       ChatOpenAI lib \<lparr>model = default_model, temperature = 0.2, max_tokens = 512,
                       openai_api_key = environ api_key_variable,
                       openai_api_base = together_api_base\<rparr>
   \<and> map (\<lambda>a. (temperature a, max_tokens a))
         (List.map_filter chat_params_of
            (snd (snd (summarize_text (traced lib) environ text m (w, []))))) = [(0.2, 400)]
   \<and> (400 :: int) \<in> {400..512} \<and> (512 :: int) \<in> {400..512}"
proof -
  have 1: "List.map_filter splitter_sizes_of
      (snd (snd (build_retriever_from_text (traced lib) text None None None (w, [])))) = [(800, 100)]"
    by (simp add: build_retriever_run List.map_filter_simps opt_arg_simps
        split: prod.splits sum.splits)
  have 2: "List.map_filter splitter_sizes_of
      (snd (snd (build_retriever_from_text (traced lib) text (Some cs) (Some ov) (Some k) (w, [])))) =
       [(cs, ov)]"
    by (simp add: build_retriever_run List.map_filter_simps opt_arg_simps
        split: prod.splits sum.splits)
  have 3: "RecursiveCharacterTextSplitter lib 800 100 w = (Inr sp, w1) \<longrightarrow>
        map fst (calls_of Api_split_text
          (snd (snd (build_retriever_from_text (traced lib) text None None None (w, []))))) =
        [Call_split_text sp text]"
    by (simp add: build_retriever_run calls_of_def opt_arg_simps split: prod.splits sum.splits)
  have 4: "set (List.map_filter retriever_k_of
        (snd (snd (build_retriever_from_text (traced lib) text None None None (w, []))))) \<subseteq> {3}"
    by (simp add: build_retriever_run List.map_filter_simps opt_arg_simps
        split: prod.splits sum.splits)
  have 5: "\<forall>ret s. build_retriever_from_text (traced lib) text None None None (w, []) = (Inr ret, s) \<longrightarrow>
        List.map_filter retriever_k_of (snd s) = [3]"
    by (auto simp add: build_retriever_run List.map_filter_simps opt_arg_simps
        split: prod.splits sum.splits)
  have 6: "\<forall>ret s. build_retriever_from_text (traced lib) text (Some cs) (Some ov) (Some k) (w, []) =
          (Inr ret, s) \<longrightarrow>
        List.map_filter retriever_k_of (snd s) = [k]"
    by (auto simp add: build_retriever_run List.map_filter_simps opt_arg_simps
        split: prod.splits sum.splits)
  have 7: "List.map_filter splitter_sizes_of
        (snd (snd (rag_qa (traced lib) environ text question m (w, [])))) = [(800, 100)]"
    by (simp add: rag_qa_run build_retriever_run List.map_filter_simps opt_arg_simps
        split: prod.splits sum.splits option.splits)
  have 8: "set (List.map_filter retriever_k_of
        (snd (snd (rag_qa (traced lib) environ text question m (w, []))))) \<subseteq> {3}"
    by (simp add: rag_qa_run build_retriever_run List.map_filter_simps opt_arg_simps
        split: prod.splits sum.splits option.splits)
  have 9: "\<forall>p s. rag_qa (traced lib) environ text question m (w, []) = (Inr p, s) \<longrightarrow>
        List.map_filter retriever_k_of (snd s) = [3]
        \<and> map (\<lambda>a. (temperature a, max_tokens a)) (List.map_filter chat_params_of (snd s)) =
            [(0.2, 512)]"
    by (auto simp add: rag_qa_run build_retriever_run List.map_filter_simps opt_arg_simps qa_params_def
        split: prod.splits sum.splits option.splits)
  have 10: "set (map (\<lambda>a. (temperature a, max_tokens a))
         (List.map_filter chat_params_of
            (snd (snd (rag_qa (traced lib) environ text question m (w, [])))))) \<subseteq> {(0.2, 512)}"
    by (auto simp add: rag_qa_run build_retriever_run List.map_filter_simps qa_params_def opt_arg_simps
        split: prod.splits sum.splits option.splits)
  have 11: "together_llm lib environ None None None =
       ChatOpenAI lib \<lparr>model = default_model, temperature = 0.2, max_tokens = 512,
                       openai_api_key = environ api_key_variable,
                       openai_api_base = together_api_base\<rparr>"
    by (simp add: together_llm_def opt_arg_simps)
  have 12: "map (\<lambda>a. (temperature a, max_tokens a))
         (List.map_filter chat_params_of
            (snd (snd (summarize_text (traced lib) environ text m (w, []))))) = [(0.2, 400)]"
    by (simp add: summarize_text_run List.map_filter_simps summary_params_def
        split: prod.splits sum.splits)
  from 1 2 3 4 5 6 7 8 9 10 11 12 show ?thesis by simp
qed

theorem default_configuration_witness:
  "List.map_filter retriever_k_of
     (snd (snd (build_retriever_from_text (traced small_library) ''The sky is blue.'' None None None
        (fresh_world, [])))) = [3]
   \<and> map fst (calls_of Api_split_text
          (snd (snd (build_retriever_from_text (traced small_library) ''The sky is blue.''
             None None None (fresh_world, []))))) =
        [Call_split_text (Splitter 800 100) ''The sky is blue.'']
   \<and> together_llm small_library environ_with_key None None None fresh_world =
     (Inr (Llm \<lparr>model = default_model, temperature = 0.2, max_tokens = 512,
                openai_api_key = Some ''secret'', openai_api_base = together_api_base\<rparr>),
      fresh_world)"
proof -
  note d = default_configuration [where lib = small_library and ?text = "''The sky is blue.''"
      and w = fresh_world and sp = "Splitter 800 100" and ?w1.0 = fresh_world
      and environ = environ_with_key]
  have run: "build_retriever_from_text (traced small_library) ''The sky is blue.'' None None None
        (fresh_world, []) =
      (Inr (Retriever (Store [''The sky is blue.''] (Embeddings embedding_model_name 0)) 3),
       snd (build_retriever_from_text (traced small_library) ''The sky is blue.'' None None None
        (fresh_world, [])))"
    by (simp add: build_retriever_run small_defs)
  have sp: "RecursiveCharacterTextSplitter small_library 800 100 fresh_world =
      (Inr (Splitter 800 100), fresh_world)"
    by (simp add: small_defs)
  from d run have a: "List.map_filter retriever_k_of
     (snd (snd (build_retriever_from_text (traced small_library) ''The sky is blue.'' None None None
        (fresh_world, [])))) = [3]"
    by blast
  from d sp have b: "map fst (calls_of Api_split_text
          (snd (snd (build_retriever_from_text (traced small_library) ''The sky is blue.''
             None None None (fresh_world, []))))) =
        [Call_split_text (Splitter 800 100) ''The sky is blue.'']"
    by blast
  from d have "together_llm small_library environ_with_key None None None fresh_world =
       ChatOpenAI small_library \<lparr>model = default_model, temperature = 0.2, max_tokens = 512,
                       openai_api_key = environ_with_key api_key_variable,
                       openai_api_base = together_api_base\<rparr> fresh_world"
    by simp
  then have c: "together_llm small_library environ_with_key None None None fresh_world =
     (Inr (Llm \<lparr>model = default_model, temperature = 0.2, max_tokens = 512,
                openai_api_key = Some ''secret'', openai_api_base = together_api_base\<rparr>),
      fresh_world)"
    by (simp add: small_defs)
  from a b c show ?thesis by blast
qed

subsection \<open>The credential\<close>

text \<open>
  \<^verbatim>\<open>together_llm\<close> reads the key and hands it on. With the variable unset the chat model
  is constructed with the key \<open>None\<close>, and what happens then is the constructor's doing:
  the file itself checks nothing and raises nothing.
\<close>

lemma together_llm_without_key:
  assumes "environ api_key_variable = None"
  shows "together_llm lib environ m t n =
           ChatOpenAI lib \<lparr>model = opt_arg m default_model, temperature = opt_arg t 0.2,
                           max_tokens = opt_arg n 512, openai_api_key = None,
                           openai_api_base = together_api_base\<rparr>"
  using assms by (simp add: together_llm_def)

section \<open>Properties of \<^verbatim>\<open>utils/pdf_processing.py\<close>\<close>

subsection \<open>Table extraction\<close>

text \<open>
  The loop over the pages: when every page yields its tables, the result is the tables of
  all pages, page after page, behind what was collected before.
\<close>

lemma collect_page_tables_found:
  assumes "\<forall>page \<in> set ps. \<forall>w. fst (page_extract_tables lib page w) = Inr (found page)"
  shows "fst (collect_page_tables lib ps results w) =
           Inr (results @ concat (map (\<lambda>page. case found page of None \<Rightarrow> [] | Some ts \<Rightarrow> map Rows ts) ps))"
  using assms
proof (induction ps arbitrary: results w)
  case Nil
  show ?case by simp
next
  case (Cons page rest)
  obtain r w1 where run: "page_extract_tables lib page w = (r, w1)"
    by (cases "page_extract_tables lib page w")
  with Cons.prems have r: "r = Inr (found page)"
    by (metis fst_conv list.set_intros(1))
  have "\<forall>page \<in> set rest. \<forall>w. fst (page_extract_tables lib page w) = Inr (found page)"
    using Cons.prems by simp
  from Cons.IH [OF this] show ?case
    by (simp add: run r)
qed

text \<open>
  C9. For every PDF, \<^verbatim>\<open>extract_tables\<close> runs Camelot first, on the world as it finds
  it. When Camelot returns a non-empty list of tables, the result is the list of their
  data frames and pdfplumber is not run. When Camelot raises or returns no table,
  the result is what pdfplumber gives, run on the world Camelot left: the exception of
  \<^verbatim>\<open>pdfplumber.open\<close> if it raises, and otherwise, when each page yields its tables, the
  tables of all pages in page order.
\<close>

theorem extract_tables_camelot_then_pdfplumber:
  "(camelot_read_pdf lib pdf_path ''all'' w = (Inr tables, w1) \<and> tables \<noteq> [] \<longrightarrow>
      extract_tables lib pdf_path w = (Inr (map (\<lambda>t. DataFrame (df t)) tables), w1))
   \<and> (camelot_read_pdf lib pdf_path ''all'' w = (Inr [], w1) \<longrightarrow>
      extract_tables lib pdf_path w = pdfplumber_tables lib pdf_path w1)
   \<and> (camelot_read_pdf lib pdf_path ''all'' w = (Inl e, w1) \<longrightarrow>
      extract_tables lib pdf_path w = pdfplumber_tables lib pdf_path w1)
   \<and> (pdfplumber_open lib pdf_path w1 = (Inl e, w2) \<longrightarrow>
      pdfplumber_tables lib pdf_path w1 = (Inl e, w2))
   \<and> (pdfplumber_open lib pdf_path w1 = (Inr pdf, w2) \<and>
      (\<forall>page \<in> set (pdf_pages lib pdf). \<forall>w. fst (page_extract_tables lib page w) = Inr (found page)) \<longrightarrow>
      fst (pdfplumber_tables lib pdf_path w1) =
        Inr (concat (map (\<lambda>page. case found page of None \<Rightarrow> [] | Some ts \<Rightarrow> map Rows ts)
               (pdf_pages lib pdf))))"
proof -
  have "fst (pdfplumber_tables lib pdf_path w1) =
        Inr (concat (map (\<lambda>page. case found page of None \<Rightarrow> [] | Some ts \<Rightarrow> map Rows ts)
               (pdf_pages lib pdf)))"
    if "pdfplumber_open lib pdf_path w1 = (Inr pdf, w2)"
      and "\<forall>page \<in> set (pdf_pages lib pdf). \<forall>w. fst (page_extract_tables lib page w) = Inr (found page)"
    using collect_page_tables_found [OF that(2), of "[]" w2] that(1)
    by (auto simp add: pdfplumber_tables_def split: prod.splits)
  then show ?thesis
    by (simp add: extract_tables_def pdfplumber_tables_def)
qed

theorem extract_tables_camelot_then_pdfplumber_witness:
  "extract_tables small_detectors ''text.pdf'' [] = (Inr [DataFrame ''frame''], [''camelot.read_pdf''])
   \<and> extract_tables small_detectors ''scan.pdf'' [] =
       (Inr [Rows [[Some ''a'', None]]],
        [''camelot.read_pdf'', ''pdfplumber.open'', ''page.extract_tables'', ''page.extract_tables'',
         ''close''])
   \<and> extract_tables small_detectors ''empty.pdf'' [] =
       (Inr [Rows [[Some ''a'', None]]],
        [''camelot.read_pdf'', ''pdfplumber.open'', ''page.extract_tables'', ''page.extract_tables'',
         ''close''])"
proof -
  have plumber: "pdfplumber_tables small_detectors path [''camelot.read_pdf''] =
       (Inr [Rows [[Some ''a'', None]]],
        [''camelot.read_pdf'', ''pdfplumber.open'', ''page.extract_tables'', ''page.extract_tables'',
         ''close''])" for path
    by (simp add: pdfplumber_tables_def small_detectors_def)
  have 1: "camelot_read_pdf small_detectors ''text.pdf'' ''all'' [] =
      (Inr [\<lparr>df = ''frame''\<rparr>], [''camelot.read_pdf'']) \<and> [\<lparr>df = ''frame''\<rparr>] \<noteq> []"
    by (simp add: small_detectors_def)
  have 2: "camelot_read_pdf small_detectors ''scan.pdf'' ''all'' [] =
      (Inl (Raised ''camelot''), [''camelot.read_pdf''])"
    by (simp add: small_detectors_def)
  have 3: "camelot_read_pdf small_detectors ''empty.pdf'' ''all'' [] = (Inr [], [''camelot.read_pdf''])"
    by (simp add: small_detectors_def)
  from extract_tables_camelot_then_pdfplumber
    [of small_detectors "''text.pdf''" "[]" "[\<lparr>df = ''frame''\<rparr>]" "[''camelot.read_pdf'']"] 1
  have a: "extract_tables small_detectors ''text.pdf'' [] =
      (Inr [DataFrame ''frame''], [''camelot.read_pdf''])"
    by simp
  from extract_tables_camelot_then_pdfplumber
    [of small_detectors "''scan.pdf''" "[]" _ "[''camelot.read_pdf'']" "Raised ''camelot''"] 2
  have b: "extract_tables small_detectors ''scan.pdf'' [] =
      pdfplumber_tables small_detectors ''scan.pdf'' [''camelot.read_pdf'']"
    by blast
  from extract_tables_camelot_then_pdfplumber
    [of small_detectors "''empty.pdf''" "[]" _ "[''camelot.read_pdf'']"] 3
  have c: "extract_tables small_detectors ''empty.pdf'' [] =
      pdfplumber_tables small_detectors ''empty.pdf'' [''camelot.read_pdf'']"
    by blast
  from a b c plumber show ?thesis by simp
qed

subsection \<open>Reordering pages\<close>

text \<open>
  The loop over the page numbers: with every number inside the source, no insertion
  raises, and the pages appended are the listed pages of the source, in the listed order.
\<close>

lemma insert_pages_appends:
  assumes lib: "appends_copies lib"
    and range: "\<forall>i \<in> set new_order. 0 \<le> i \<and> i < int (length (doc_pages lib src))"
  shows "\<exists>dst' w'. insert_pages lib src new_order dst w = (Inr dst', w') \<and>
           doc_pages lib dst' = doc_pages lib dst @ map (\<lambda>i. doc_pages lib src ! nat i) new_order"
  using range
proof (induction new_order arbitrary: dst w)
  case Nil
  show ?case by simp
next
  case (Cons i rest)
  from Cons.prems have i: "0 \<le> i \<and> i < int (length (doc_pages lib src))" by simp
  with lib obtain dst1 w1 where
    step: "insert_pdf lib dst src i i w = (Inr dst1, w1)"
    and pages1: "doc_pages lib dst1 = doc_pages lib dst @ [doc_pages lib src ! nat i]"
    unfolding appends_copies_def by blast
  from Cons.prems have "\<forall>i \<in> set rest. 0 \<le> i \<and> i < int (length (doc_pages lib src))" by simp
  from Cons.IH [OF this, of dst1 w1] obtain dst' w' where
    "insert_pages lib src rest dst1 w1 = (Inr dst', w')"
    "doc_pages lib dst' = doc_pages lib dst1 @ map (\<lambda>i. doc_pages lib src ! nat i) rest"
    by blast
  with step pages1 show ?case by simp
qed

text \<open>
  C10, as stated: for every list \<^verbatim>\<open>new_order\<close> of page numbers of the source,
  \<^verbatim>\<open>reorder_pages\<close> produces an output document with \<^verbatim>\<open>len(new_order)\<close> pages. The
  empty list is such a list (the caller in \<^verbatim>\<open>main.py\<close> passes it when no entry of the
  input is a number): the document built has no pages, saving it is refused, and the
  function raises instead of producing a document.
\<close>

theorem reorder_pages_empty_order_counterexample:
  "reorder_pages small_pymupdf ''in.pdf'' [] None [(''in.pdf'', [''A'', ''B'', ''C''])] =
     (Inl (Raised ''cannot save with zero pages''), [(''in.pdf'', [''A'', ''B'', ''C''])])"
  by (simp add: reorder_pages_def bind_io_def return_io_def small_pymupdf_def opt_arg_simps)

text \<open>
  C10, amended: for every PDF with \<open>p\<close> pages and every list \<^verbatim>\<open>new_order\<close> of page
  numbers in \<open>[0, p)\<close>, the document \<^verbatim>\<open>reorder_pages\<close> builds and hands to
  \<^verbatim>\<open>save\<close> has \<^verbatim>\<open>len(new_order)\<close> pages, and its \<open>j\<close>-th page is a copy of page
  \<^verbatim>\<open>new_order[j]\<close> of the source. The function returns the output path when saving
  that document succeeds and raises the exception of \<^verbatim>\<open>save\<close> when it does not, as
  for the empty list. The list need not be a permutation: nothing in the function checks
  it and the loop raises nothing, so repeated and left-out pages pass. The library is
  assumed to do what its documentation says: \<^verbatim>\<open>fitz.open()\<close> is empty and
  \<^verbatim>\<open>insert_pdf\<close> appends the copy of one page.
\<close>

theorem reorder_pages_copies_listed_pages:
  assumes "appends_copies lib"
    and "fitz_open lib pdf_path w = (Inr src, w1)"
    and "fitz_open_empty lib w1 = (Inr dst0, w2)"
    and "\<forall>i \<in> set new_order. 0 \<le> i \<and> i < int (length (doc_pages lib src))"
  shows "\<exists>dst w3.
      insert_pages lib src new_order dst0 w2 = (Inr dst, w3)
    \<and> doc_pages lib dst = map (\<lambda>i. doc_pages lib src ! nat i) new_order
    \<and> length (doc_pages lib dst) = length new_order
    \<and> (\<forall>j < length new_order. doc_pages lib dst ! j = doc_pages lib src ! nat (new_order ! j))
    \<and> reorder_pages lib pdf_path new_order output_path w =
        (case save lib dst (opt_arg output_path ''reordered.pdf'') w3 of
           (Inl e, w4) \<Rightarrow> (Inl e, w4)
         | (Inr u, w4) \<Rightarrow> (Inr (opt_arg output_path ''reordered.pdf''), w4))"
proof -
  from assms(1) assms(3) have empty: "doc_pages lib dst0 = []"
    unfolding appends_copies_def by (metis Pair_inject sum.inject(2))
  from insert_pages_appends [OF assms(1) assms(4), of dst0 w2] obtain dst w3 where
    loop: "insert_pages lib src new_order dst0 w2 = (Inr dst, w3)"
    and pages: "doc_pages lib dst = doc_pages lib dst0 @ map (\<lambda>i. doc_pages lib src ! nat i) new_order"
    by blast
  from pages empty have eq: "doc_pages lib dst = map (\<lambda>i. doc_pages lib src ! nat i) new_order"
    by simp
  have "reorder_pages lib pdf_path new_order output_path w =
        (case save lib dst (opt_arg output_path ''reordered.pdf'') w3 of
           (Inl e, w4) \<Rightarrow> (Inl e, w4)
         | (Inr u, w4) \<Rightarrow> (Inr (opt_arg output_path ''reordered.pdf''), w4))"
    by (simp add: reorder_pages_def bind_io_def return_io_def assms(2) assms(3) loop
        split: prod.splits sum.splits)
  with loop eq show ?thesis by simp
qed

lemma take_one_drop: "n < length xs \<Longrightarrow> take (Suc 0) (drop n xs) = [xs ! n]"
  by (metis Cons_nth_drop_Suc take_Suc_Cons take_0)

lemma small_pymupdf_appends_copies: "appends_copies small_pymupdf"
  by (auto simp add: appends_copies_def small_pymupdf_def return_io_def intro!: take_one_drop)

theorem reorder_pages_copies_listed_pages_witness:
  "reorder_pages small_pymupdf ''in.pdf'' [2, 0, 0] None [(''in.pdf'', [''A'', ''B'', ''C''])] =
     (Inr ''reordered.pdf'',
      [(''reordered.pdf'', [''C'', ''A'', ''A'']), (''in.pdf'', [''A'', ''B'', ''C''])])"
proof -
  have opened: "fitz_open small_pymupdf ''in.pdf'' [(''in.pdf'', [''A'', ''B'', ''C''])] =
      (Inr [''A'', ''B'', ''C''], [(''in.pdf'', [''A'', ''B'', ''C''])])"
    by (simp add: small_pymupdf_def)
  have new: "fitz_open_empty small_pymupdf [(''in.pdf'', [''A'', ''B'', ''C''])] =
      (Inr [], [(''in.pdf'', [''A'', ''B'', ''C''])])"
    by (simp add: small_pymupdf_def return_io_def)
  have range: "\<forall>i \<in> set [2, 0, 0 :: int].
      0 \<le> i \<and> i < int (length (doc_pages small_pymupdf [''A'', ''B'', ''C'']))"
    by (simp add: small_pymupdf_def)
  from reorder_pages_copies_listed_pages [OF small_pymupdf_appends_copies opened new range, of None]
  obtain dst w3 where
    "doc_pages small_pymupdf dst = map (\<lambda>i. doc_pages small_pymupdf [''A'', ''B'', ''C''] ! nat i) [2, 0, 0]"
    and "insert_pages small_pymupdf [''A'', ''B'', ''C''] [2, 0, 0] [] [(''in.pdf'', [''A'', ''B'', ''C''])]
           = (Inr dst, w3)"
    and run: "reorder_pages small_pymupdf ''in.pdf'' [2, 0, 0] None [(''in.pdf'', [''A'', ''B'', ''C''])] =
        (case save small_pymupdf dst (opt_arg None ''reordered.pdf'') w3 of
           (Inl e, w4) \<Rightarrow> (Inl e, w4)
         | (Inr u, w4) \<Rightarrow> (Inr (opt_arg None ''reordered.pdf''), w4))"
    by blast
  then have "dst = [''C'', ''A'', ''A'']" and "w3 = [(''in.pdf'', [''A'', ''B'', ''C''])]"
    by (simp_all add: small_pymupdf_def return_io_def)
  with run show ?thesis
    by (simp add: small_pymupdf_def opt_arg_simps)
qed

end
